theory Spec2Isabelle
  imports Complex_Main
begin

section \<open>Python values and exceptions\<close>

text \<open>
  The exceptions that the statements of \<^verbatim>\<open>OGF_Table2Folder.py\<close> can raise. A function of
  the script is modelled with result type \<open>error + 'a\<close>; \<open>Inl e\<close> is the uncaught exception.
\<close>

datatype error =
    TypeError
  | ZeroDivisionError
  | IndexError
  | FileNotFoundError
  | NotADirectoryError
  | IsADirectoryError
  | FileExistsError
  | SystemExit

text \<open>
  Python strings are modelled as \<open>string\<close>; a character is a code point below 256.
  Thresholds: \<^verbatim>\<open>self.missing\<close> is a Python float, modelled as a rational number (the only
  float the script computes from it is the quotient \<open>0 / n\<close>, which is exact);
  \<^verbatim>\<open>self.copies\<close> is a Python int.
\<close>

definition TAB :: char where
  "TAB = CHR 0x09"

definition NL :: char where
  "NL = CHR 0x0A"

subsection \<open>\<^verbatim>\<open>str.strip()\<close>, \<^verbatim>\<open>str.split('\t')\<close>, \<^verbatim>\<open>str.splitlines()\<close>\<close>

definition isspace :: "char \<Rightarrow> bool" where
  \<comment> \<open>\<^verbatim>\<open>str.isspace\<close> on the code points below 256\<close>
  "isspace c =
     (let n = (of_char c :: nat)
      in (9 \<le> n \<and> n \<le> 13) \<or> (28 \<le> n \<and> n \<le> 32) \<or> n = 133 \<or> n = 160)"

definition strip :: "string \<Rightarrow> string" where
  "strip s = rev (dropWhile isspace (rev (dropWhile isspace s)))"

fun split :: "char \<Rightarrow> string \<Rightarrow> string list" where
  \<comment> \<open>\<^verbatim>\<open>s.split(sep)\<close> for a separator of one character\<close>
  "split sep [] = [[]]"
| "split sep (c # cs) =
     (if c = sep then [] # split sep cs
      else (case split sep cs of
              [] \<Rightarrow> [[c]]
            | w # ws \<Rightarrow> (c # w) # ws))"

definition is_linebreak :: "char \<Rightarrow> bool" where
  \<comment> \<open>the line boundaries of \<^verbatim>\<open>str.splitlines\<close> below 256: LF, VT, FF, CR, FS, GS, RS and
      NEL; the two others, U+2028 and U+2029, are not characters of the strings modelled\<close>
  "is_linebreak c =
     (let n = (of_char c :: nat)
      in (10 \<le> n \<and> n \<le> 13) \<or> (28 \<le> n \<and> n \<le> 30) \<or> n = 133)"

fun splitlines_acc :: "string \<Rightarrow> string \<Rightarrow> string list" where
  \<comment> \<open>the first argument is the line read so far, reversed\<close>
  "splitlines_acc acc [] = (if acc = [] then [] else [rev acc])"
| "splitlines_acc acc [c] =
     (if is_linebreak c then [rev acc] else [rev (c # acc)])"
| "splitlines_acc acc (c # d # cs) =
     (if c = CHR 0x0D \<and> d = CHR 0x0A then rev acc # splitlines_acc [] cs
      else if is_linebreak c then rev acc # splitlines_acc [] (d # cs)
      else splitlines_acc (c # acc) (d # cs))"

definition splitlines :: "string \<Rightarrow> string list" where
  "splitlines s = splitlines_acc [] s"

section \<open>The Selector: \<^verbatim>\<open>Table2Folder.OFolder2List\<close>\<close>

subsection \<open>The operations of lines 147 and 153 at the types they are applied to\<close>

definition list_eq_int :: "string list \<Rightarrow> int \<Rightarrow> bool" where
  \<comment> \<open>\<^verbatim>\<open>entries == 0\<close>: a list never equals an int\<close>
  "list_eq_int entries n = False"

definition count_nonzero :: "bool \<Rightarrow> int" where
  \<comment> \<open>\<^verbatim>\<open>np.count_nonzero\<close> of a Python bool, a Python int\<close>
  "count_nonzero b = (if b then 1 else 0)"

definition truediv :: "int \<Rightarrow> int \<Rightarrow> error + rat" where
  \<comment> \<open>\<^verbatim>\<open>a / b\<close> on Python ints\<close>
  "truediv a b = (if b = 0 then Inl ZeroDivisionError else Inr (of_int a / of_int b))"

definition proportion :: "string list \<Rightarrow> error + rat" where
  \<comment> \<open>line 147\<close>
  "proportion entries =
     truediv (count_nonzero (list_eq_int entries 0)) (int (length entries) - 1)"

definition int_of_list :: "string list \<Rightarrow> error + int" where
  \<comment> \<open>\<^verbatim>\<open>int(x)\<close> for a list \<open>x\<close>\<close>
  "int_of_list x = Inl TypeError"

fun map_int :: "string list list \<Rightarrow> error + int list" where
  \<comment> \<open>\<^verbatim>\<open>list(map(int, xs))\<close> for a list \<open>xs\<close> of lists\<close>
  "map_int [] = Inr []"
| "map_int (x # xs) =
     (case int_of_list x of
        Inl e \<Rightarrow> Inl e
      | Inr i \<Rightarrow> (case map_int xs of Inl e \<Rightarrow> Inl e | Inr is \<Rightarrow> Inr (i # is)))"

subsection \<open>The loops of lines 135 to 155\<close>

text \<open>
  \<^verbatim>\<open>line_list\<close> and \<^verbatim>\<open>missing_list\<close> are lists of rows, a row being the list of the fields
  of a line without the last one. Every element that line 155 appends to
  \<^verbatim>\<open>final_list\<close> is a reference to the one list object \<^verbatim>\<open>missing_list\<close>, not a copy of it.
\<close>

datatype ref = MissingList

record vars =
  line_list :: "string list list"
  missing_list :: "string list list"
  final_list :: "ref list"

fun missing_loop :: "rat \<Rightarrow> string list list \<Rightarrow> string list list \<Rightarrow> error + string list list" where
  \<comment> \<open>lines 146 to 149; the last argument is \<^verbatim>\<open>missing_list\<close>\<close>
  "missing_loop missing [] ml = Inr ml"
| "missing_loop missing (entries # rest) ml =
     (case proportion entries of
        Inl e \<Rightarrow> Inl e
      | Inr p \<Rightarrow> missing_loop missing rest (if p \<le> missing then ml @ [entries] else ml))"

fun copies_loop :: "int \<Rightarrow> string list list \<Rightarrow> string list list \<Rightarrow> ref list \<Rightarrow> error + ref list" where
  \<comment> \<open>lines 151 to 155; the second argument is \<^verbatim>\<open>missing_list\<close>, the third what is left
      of it to iterate over, the last \<^verbatim>\<open>final_list\<close>\<close>
  "copies_loop copies ml [] fl = Inr fl"
| "copies_loop copies ml (entries # rest) fl =
     (case map_int (drop 1 ml) of
        Inl e \<Rightarrow> Inl e
      | Inr integers \<Rightarrow>
          copies_loop copies ml rest
            (if list_all (\<lambda>x. x \<le> copies) integers then fl @ [MissingList] else fl))"

definition columns_of :: "string \<Rightarrow> string list" where
  \<comment> \<open>lines 137 and 140\<close>
  "columns_of line = butlast (split TAB (strip line))"

fun lines_loop :: "rat \<Rightarrow> int \<Rightarrow> string list \<Rightarrow> vars \<Rightarrow> error + vars" where
  \<comment> \<open>lines 135 to 155\<close>
  "lines_loop missing copies [] v = Inr v"
| "lines_loop missing copies (line # rest) v =
     (let ll = line_list v @ [columns_of line]
      in case missing_loop missing ll (missing_list v) of
           Inl e \<Rightarrow> Inl e
         | Inr ml \<Rightarrow>
             (case copies_loop copies ml ml (final_list v) of
                Inl e \<Rightarrow> Inl e
              | Inr fl \<Rightarrow>
                  lines_loop missing copies rest
                    \<lparr>line_list = ll, missing_list = ml, final_list = fl\<rparr>))"

definition deref :: "vars \<Rightarrow> ref \<Rightarrow> string list list" where
  "deref v r = (case r of MissingList \<Rightarrow> missing_list v)"

definition getitem0 :: "'a list \<Rightarrow> error + 'a" where
  \<comment> \<open>\<^verbatim>\<open>xs[0]\<close>\<close>
  "getitem0 xs = (case xs of [] \<Rightarrow> Inl IndexError | x # _ \<Rightarrow> Inr x)"

fun first_elements_of :: "vars \<Rightarrow> ref list \<Rightarrow> error + string list list" where
  \<comment> \<open>line 158: \<^verbatim>\<open>[entry[0] for entry in final_list]\<close>\<close>
  "first_elements_of v [] = Inr []"
| "first_elements_of v (entry # rest) =
     (case getitem0 (deref v entry) of
        Inl e \<Rightarrow> Inl e
      | Inr x \<Rightarrow> (case first_elements_of v rest of Inl e \<Rightarrow> Inl e | Inr xs \<Rightarrow> Inr (x # xs)))"

definition select :: "rat \<Rightarrow> int \<Rightarrow> string list \<Rightarrow> error + string list list" where
  \<comment> \<open>lines 129 to 158, from the lines \<^verbatim>\<open>ortologs\<close> of the table to \<^verbatim>\<open>first_elements\<close>\<close>
  "select missing copies ortologs =
     (case lines_loop missing copies (drop 1 ortologs)
             \<lparr>line_list = [], missing_list = [], final_list = []\<rparr> of
        Inl e \<Rightarrow> Inl e
      | Inr v \<Rightarrow> first_elements_of v (final_list v))"

subsection \<open>Writing and reading \<^verbatim>\<open>FilteredOrthologs.txt\<close>\<close>

definition list_add :: "string list \<Rightarrow> string \<Rightarrow> error + string" where
  \<comment> \<open>\<^verbatim>\<open>element + "\n"\<close> for a list \<^verbatim>\<open>element\<close>\<close>
  "list_add element s = Inl TypeError"

fun write_elements :: "('a \<Rightarrow> string \<Rightarrow> error + string) \<Rightarrow> 'a list \<Rightarrow> string \<Rightarrow> error + string" where
  \<comment> \<open>lines 165 and 166; the first argument is \<^verbatim>\<open>+\<close> at the type of the elements, which
      are lists in \<^verbatim>\<open>OFolder2List\<close>, the last what has been written to the file so far\<close>
  "write_elements add [] written = Inr written"
| "write_elements add (element # rest) written =
     (case add element [NL] of
        Inl e \<Rightarrow> Inl e
      | Inr s \<Rightarrow> write_elements add rest (written @ s))"

definition read_names :: "string \<Rightarrow> string list" where
  \<comment> \<open>line 184: \<^verbatim>\<open>file.read().splitlines()\<close>\<close>
  "read_names content = splitlines content"

definition selector :: "rat \<Rightarrow> int \<Rightarrow> string list \<Rightarrow> error + string" where
  \<comment> \<open>lines 129 to 166: the text written to \<^verbatim>\<open>FilteredOrthologs.txt\<close>\<close>
  "selector missing copies ortologs =
     (case select missing copies ortologs of
        Inl e \<Rightarrow> Inl e
      | Inr first_elements \<Rightarrow> write_elements list_add first_elements [])"

section \<open>The file system and the process\<close>

text \<open>
  A path is the list of its components below the root directory; \<^verbatim>\<open>os.path.join\<close> appends
  components and \<^verbatim>\<open>os.path.dirname\<close> removes the last one. The directory given with
  \<^verbatim>\<open>--input\<close> is a full path, as its help text asks; a relative file name is resolved
  against the working directory where it is used. The text of a file is what Python's
  text mode reads from it.
\<close>

type_synonym path = "string list"

datatype node = File string | Dir "(string \<times> node) list"

datatype message =
    FoundRun  \<comment> \<open>\<^verbatim>\<open>Found OrthoFinder run folder. Retrieving orthologs...\<close>\<close>
  | Retrieved  \<comment> \<open>\<^verbatim>\<open>Orthologs succesfully retrieved. Copying to a new folder...\<close>\<close>
  | FileMissing string  \<comment> \<open>\<^verbatim>\<open>File {label}.fa not found.\<close>\<close>
  | Copied int  \<comment> \<open>\<^verbatim>\<open>{og_count} orthologs were identified and successfully copied ...\<close>\<close>

record world =
  cwd :: path
  files :: node
  printed :: "message list"

text \<open>
  The objects that the script passes to the functions of \<^verbatim>\<open>os\<close> and \<^verbatim>\<open>os.path\<close>: a string
  naming a path, \<^verbatim>\<open>None\<close>, a list of strings, and the function object \<^verbatim>\<open>os.getcwd\<close>.
\<close>

datatype pyobj = Str path | NoneObj | ListObj "string list" | BuiltinFunction

fun lookup :: "node \<Rightarrow> path \<Rightarrow> error + node" where
  "lookup n [] = Inr n"
| "lookup (File content) (c # cs) = Inl NotADirectoryError"
| "lookup (Dir entries) (c # cs) =
     (case map_of entries c of
        None \<Rightarrow> Inl FileNotFoundError
      | Some n \<Rightarrow> lookup n cs)"

fun update_entry :: "string \<Rightarrow> node \<Rightarrow> (string \<times> node) list \<Rightarrow> (string \<times> node) list" where
  "update_entry name n [] = [(name, n)]"
| "update_entry name n ((name', n') # entries) =
     (if name' = name then (name, n) # entries else (name', n') # update_entry name n entries)"

fun put :: "node \<Rightarrow> path \<Rightarrow> node \<Rightarrow> error + node" where
  \<comment> \<open>the tree with the node at a path created or replaced; its parent must be a directory\<close>
  "put n [] new = Inr new"
| "put (File content) (c # cs) new = Inl NotADirectoryError"
| "put (Dir entries) (c # cs) new =
     (if cs = [] then Inr (Dir (update_entry c new entries))
      else (case map_of entries c of
              None \<Rightarrow> Inl FileNotFoundError
            | Some n \<Rightarrow>
                (case put n cs new of
                   Inl e \<Rightarrow> Inl e
                 | Inr n' \<Rightarrow> Inr (Dir (update_entry c n' entries)))))"

fun new_dirs :: "path \<Rightarrow> node" where
  "new_dirs [] = Dir []"
| "new_dirs (c # cs) = Dir [(c, new_dirs cs)]"

fun makedirs :: "node \<Rightarrow> path \<Rightarrow> error + node" where
  "makedirs n [] = Inl FileExistsError"
| "makedirs (File content) (c # cs) = Inl NotADirectoryError"
| "makedirs (Dir entries) (c # cs) =
     (case map_of entries c of
        None \<Rightarrow> Inr (Dir (entries @ [(c, new_dirs cs)]))
      | Some n \<Rightarrow>
          (case makedirs n cs of
             Inl e \<Rightarrow> Inl e
           | Inr n' \<Rightarrow> Inr (Dir (update_entry c n' entries))))"

definition os_getcwd :: "world \<Rightarrow> path" where
  "os_getcwd w = cwd w"

definition listdir_at :: "world \<Rightarrow> path \<Rightarrow> error + string list" where
  "listdir_at w p =
     (case lookup (files w) p of
        Inl e \<Rightarrow> Inl e
      | Inr (File content) \<Rightarrow> Inl NotADirectoryError
      | Inr (Dir entries) \<Rightarrow> Inr (map fst entries))"

definition os_listdir :: "world \<Rightarrow> pyobj \<Rightarrow> error + string list" where
  \<comment> \<open>\<^verbatim>\<open>os.listdir(None)\<close> lists the working directory\<close>
  "os_listdir w a =
     (case a of
        Str p \<Rightarrow> listdir_at w p
      | NoneObj \<Rightarrow> listdir_at w (cwd w)
      | ListObj xs \<Rightarrow> Inl TypeError
      | BuiltinFunction \<Rightarrow> Inl TypeError)"

definition os_chdir :: "world \<Rightarrow> pyobj list \<Rightarrow> error + world" where
  \<comment> \<open>the second argument is the list of the arguments of the call: \<^verbatim>\<open>os.chdir()\<close> lacks the
      required one\<close>
  "os_chdir w args =
     (case args of
        [Str p] \<Rightarrow>
          (case lookup (files w) p of
             Inl e \<Rightarrow> Inl e
           | Inr (File content) \<Rightarrow> Inl NotADirectoryError
           | Inr (Dir entries) \<Rightarrow> Inr (w\<lparr>cwd := p\<rparr>))
      | _ \<Rightarrow> Inl TypeError)"

fun os_path_join :: "pyobj list \<Rightarrow> error + path" where
  \<comment> \<open>every argument must be a string\<close>
  "os_path_join [] = Inr []"
| "os_path_join (Str p # rest) =
     (case os_path_join rest of Inl e \<Rightarrow> Inl e | Inr q \<Rightarrow> Inr (p @ q))"
| "os_path_join (a # rest) = Inl TypeError"

definition os_path_dirname :: "path \<Rightarrow> path" where
  "os_path_dirname p = butlast p"

definition os_path_exists :: "world \<Rightarrow> path \<Rightarrow> bool" where
  "os_path_exists w p = (case lookup (files w) p of Inl e \<Rightarrow> False | Inr n \<Rightarrow> True)"

definition os_makedirs :: "world \<Rightarrow> path \<Rightarrow> error + world" where
  "os_makedirs w p =
     (case makedirs (files w) p of Inl e \<Rightarrow> Inl e | Inr t \<Rightarrow> Inr (w\<lparr>files := t\<rparr>))"

definition open_read :: "world \<Rightarrow> path \<Rightarrow> error + string" where
  \<comment> \<open>\<^verbatim>\<open>open(name, "r")\<close>: the text of the file\<close>
  "open_read w p =
     (case lookup (files w) p of
        Inl e \<Rightarrow> Inl e
      | Inr (Dir entries) \<Rightarrow> Inl IsADirectoryError
      | Inr (File content) \<Rightarrow> Inr content)"

definition set_content :: "world \<Rightarrow> path \<Rightarrow> string \<Rightarrow> error + world" where
  "set_content w p content =
     (case lookup (files w) p of
        Inr (Dir entries) \<Rightarrow> Inl IsADirectoryError
      | _ \<Rightarrow> (case put (files w) p (File content) of
                Inl e \<Rightarrow> Inl e
              | Inr t \<Rightarrow> Inr (w\<lparr>files := t\<rparr>)))"

definition open_write :: "world \<Rightarrow> path \<Rightarrow> error + world" where
  \<comment> \<open>\<^verbatim>\<open>open(name, "w")\<close>: the file is created, or emptied\<close>
  "open_write w p = set_content w p []"

definition shutil_copy2 :: "world \<Rightarrow> path \<Rightarrow> path \<Rightarrow> error + world" where
  \<comment> \<open>a destination that is a directory receives the file under its own name\<close>
  "shutil_copy2 w src dst =
     (case open_read w src of
        Inl e \<Rightarrow> Inl e
      | Inr content \<Rightarrow>
          (case lookup (files w) dst of
             Inr (Dir entries) \<Rightarrow> set_content w (dst @ [last src]) content
           | _ \<Rightarrow> set_content w dst content))"

definition print :: "world \<Rightarrow> message \<Rightarrow> world" where
  "print w m = w\<lparr>printed := printed w @ [m]\<rparr>"

fun readlines_acc :: "string \<Rightarrow> string \<Rightarrow> string list" where
  \<comment> \<open>the first argument is the line read so far, reversed\<close>
  "readlines_acc acc [] = (if acc = [] then [] else [rev acc])"
| "readlines_acc acc (c # cs) =
     (if c = NL then rev (c # acc) # readlines_acc [] cs else readlines_acc (c # acc) cs)"

definition readlines :: "string \<Rightarrow> string list" where
  \<comment> \<open>\<^verbatim>\<open>file.readlines()\<close>: the lines of the text, each with its newline\<close>
  "readlines content = readlines_acc [] content"

section \<open>The class \<^verbatim>\<open>Table2Folder\<close>\<close>

record table2folder =
  of_dir :: path
  out_dir :: path
  missing_taxa :: rat
  maximum_copies :: int

subsection \<open>The Locator: \<^verbatim>\<open>MainDir2OFolder\<close>\<close>

text \<open>
  The prompt of lines 93 to 108, which prints the runs and reads numbers from the
  terminal until one of them names a run, is a parameter \<open>prompt\<close>: from the runs and the
  world it gives the selected run and the world after the prompt.
\<close>

definition runs_of :: "(string list \<Rightarrow> world \<Rightarrow> error + string \<times> world) \<Rightarrow> pyobj \<Rightarrow> world \<Rightarrow> error + world" where
  \<comment> \<open>lines 79 to 110, with the value of \<^verbatim>\<open>of_folder\<close>\<close>
  "runs_of prompt of_folder w =
     (case os_listdir w of_folder of
        Inl e \<Rightarrow> Inl e
      | Inr runs \<Rightarrow>
          if length runs = 1 then
            (case os_path_join [of_folder, ListObj runs] of
               Inl e \<Rightarrow> Inl e
             | Inr p \<Rightarrow>
                 (case os_chdir w [Str p] of
                    Inl e \<Rightarrow> Inl e
                  | Inr w' \<Rightarrow> Inr (print w' FoundRun)))
          else if length runs = 0 then Inl FileNotFoundError
          else
            (case prompt runs w of
               Inl e \<Rightarrow> Inl e
             | Inr (selected_run, w') \<Rightarrow>
                 (case os_path_join [of_folder, Str [selected_run]] of
                    Inl e \<Rightarrow> Inl e
                  | Inr p \<Rightarrow> os_chdir w' [Str p])))"

definition MainDir2OFolder :: "(string list \<Rightarrow> world \<Rightarrow> error + string \<times> world) \<Rightarrow> table2folder \<Rightarrow> world \<Rightarrow> error + world" where
  \<comment> \<open>line 76 calls \<^verbatim>\<open>os.chdir\<close> with no argument; the value it would return is \<^verbatim>\<open>None\<close>\<close>
  "MainDir2OFolder prompt self w =
     (case os_listdir w (Str (of_dir self)) of
        Inl e \<Rightarrow> Inl e
      | Inr names \<Rightarrow>
          if ''OrthoFinder'' \<in> set names then
            (case os_path_join [Str (of_dir self), Str [''OrthoFinder'']] of
               Inl e \<Rightarrow> Inl e
             | Inr p \<Rightarrow>
                 (case os_chdir w [Str p] of
                    Inl e \<Rightarrow> Inl e
                  | Inr w1 \<Rightarrow>
                      (case os_chdir w1 [] of
                         Inl e \<Rightarrow> Inl e
                       | Inr w2 \<Rightarrow> runs_of prompt NoneObj w2)))
          else Inl FileNotFoundError)"

subsection \<open>The Selector with its files\<close>

definition OFolder2List :: "table2folder \<Rightarrow> world \<Rightarrow> error + world" where
  "OFolder2List self w =
     (let run_folder = os_getcwd w
      in case os_path_join [Str run_folder, Str [''Orthogroups'']] of
           Inl e \<Rightarrow> Inl e
         | Inr p \<Rightarrow>
        (case os_chdir w [Str p] of
           Inl e \<Rightarrow> Inl e
         | Inr w1 \<Rightarrow>
        (let tsv_file_name = ''Orthogroups.GeneCount.tsv''
         in if \<not> os_path_exists w1 (cwd w1 @ [tsv_file_name]) then Inl FileNotFoundError
            else
        (case open_read w1 (cwd w1 @ [tsv_file_name]) of
           Inl e \<Rightarrow> Inl e
         | Inr content \<Rightarrow>
        (case select (missing_taxa self) (maximum_copies self) (readlines content) of
           Inl e \<Rightarrow> Inl e
         | Inr first_elements \<Rightarrow>
        (case os_chdir w1 [Str (os_path_dirname (os_getcwd w1))] of
           Inl e \<Rightarrow> Inl e
         | Inr w2 \<Rightarrow>
        (case open_write w2 (cwd w2 @ [''FilteredOrthologs.txt'']) of
           Inl e \<Rightarrow> Inl e
         | Inr w3 \<Rightarrow>
        (case write_elements list_add first_elements [] of
           Inl e \<Rightarrow> Inl e
         | Inr written \<Rightarrow>
        (case set_content w3 (cwd w3 @ [''FilteredOrthologs.txt'']) written of
           Inl e \<Rightarrow> Inl e
         | Inr w4 \<Rightarrow> Inr (print w4 Retrieved))))))))))"

subsection \<open>The Materializer: \<^verbatim>\<open>List2Folder\<close>\<close>

fun copy_loop :: "pyobj \<Rightarrow> path \<Rightarrow> string list \<Rightarrow> world \<Rightarrow> int \<Rightarrow> error + world \<times> int" where
  \<comment> \<open>lines 190 to 200; the last argument is \<^verbatim>\<open>og_count\<close>\<close>
  "copy_loop current_directory filtered_ogs [] w og_count = Inr (w, og_count)"
| "copy_loop current_directory filtered_ogs (label # rest) w og_count =
     (case os_path_join [current_directory, Str [''Orthogroup_Sequences''], Str [label], Str [''.fa'']] of
        Inl e \<Rightarrow> Inl e
      | Inr file_path \<Rightarrow>
          if os_path_exists w file_path then
            (case os_path_join [Str filtered_ogs, Str [label], Str [''.fa'']] of
               Inl e \<Rightarrow> Inl e
             | Inr destination \<Rightarrow>
                 (case shutil_copy2 w file_path destination of
                    Inl e \<Rightarrow> Inl e
                  | Inr w' \<Rightarrow> copy_loop current_directory filtered_ogs rest w' (og_count + 1)))
          else copy_loop current_directory filtered_ogs rest (print w (FileMissing label)) og_count)"

definition List2Folder :: "table2folder \<Rightarrow> world \<Rightarrow> error + world" where
  \<comment> \<open>line 175 binds \<^verbatim>\<open>current_directory\<close> to the function \<^verbatim>\<open>os.getcwd\<close>, which it does not call\<close>
  "List2Folder self w =
     (let current_directory = BuiltinFunction
      in case os_path_join [current_directory, Str [''Filtered_Orthologs'']] of
           Inl e \<Rightarrow> Inl e
         | Inr filtered_ogs \<Rightarrow>
        (case (if \<not> os_path_exists w filtered_ogs then os_makedirs w filtered_ogs else Inr w) of
           Inl e \<Rightarrow> Inl e
         | Inr w1 \<Rightarrow>
        (case open_read w1 (cwd w1 @ [''FilteredOrthologs.txt'']) of
           Inl e \<Rightarrow> Inl e
         | Inr content \<Rightarrow>
        (case copy_loop current_directory filtered_ogs (read_names content) w1 0 of
           Inl e \<Rightarrow> Inl e
         | Inr (w2, og_count) \<Rightarrow> Inr (print w2 (Copied og_count))))))"

subsection \<open>\<^verbatim>\<open>main\<close> and the statements of the module\<close>

definition main :: "(string list \<Rightarrow> world \<Rightarrow> error + string \<times> world) \<Rightarrow> table2folder \<Rightarrow> world \<Rightarrow> error + world" where
  \<comment> \<open>the second argument is the object \<^verbatim>\<open>table2folder\<close> made from \<^verbatim>\<open>args\<close>\<close>
  "main prompt table2folder w =
     (case MainDir2OFolder prompt table2folder w of
        Inl e \<Rightarrow> Inl e
      | Inr w1 \<Rightarrow>
          (case OFolder2List table2folder w1 of
             Inl e \<Rightarrow> Inl e
           | Inr w2 \<Rightarrow> List2Folder table2folder w2))"

datatype number = IntNum int | FloatNum rat

definition py_range :: "number \<Rightarrow> number \<Rightarrow> error + int list" where
  \<comment> \<open>\<^verbatim>\<open>range(a, b)\<close>: a float cannot be interpreted as an integer\<close>
  "py_range a b =
     (case (a, b) of
        (IntNum i, IntNum j) \<Rightarrow> Inr [i..j - 1]
      | _ \<Rightarrow> Inl TypeError)"

text \<open>
  Lines 44 to 56 build the parser and parse the command line when the module is loaded.
  What \<^verbatim>\<open>argparse\<close> does with the command line is a parameter \<open>parse_args\<close>: from the
  \<^verbatim>\<open>choices\<close> of \<^verbatim>\<open>--missing\<close> and the arguments it gives the parsed values or the exit of
  the parser.
\<close>

definition script :: "(int list \<Rightarrow> string list \<Rightarrow> error + table2folder) \<Rightarrow> (string list \<Rightarrow> world \<Rightarrow> error + string \<times> world) \<Rightarrow> string list \<Rightarrow> world \<Rightarrow> error + world" where
  "script parse_args prompt argv w =
     (case py_range (FloatNum (1 / 10)) (FloatNum 1) of
        Inl e \<Rightarrow> Inl e
      | Inr choices \<Rightarrow>
          (case parse_args choices argv of
             Inl e \<Rightarrow> Inl e
           | Inr args \<Rightarrow> main prompt args w))"

subsection \<open>Tables and directories written down\<close>

fun join_tab :: "string list \<Rightarrow> string" where
  "join_tab [] = []"
| "join_tab [cell] = cell"
| "join_tab (cell # rest) = cell @ [TAB] @ join_tab rest"

definition tsv_line :: "string list \<Rightarrow> string" where
  \<comment> \<open>the cells of a row as a line of the table file: tab-separated, ended by a newline\<close>
  "tsv_line cells = join_tab cells @ [NL]"

definition run_folder_of :: "string \<Rightarrow> node" where
  \<comment> \<open>the folder of an OrthoFinder run whose gene-count table has the given text\<close>
  "run_folder_of table =
     Dir [(''Orthogroups'', Dir [(''Orthogroups.GeneCount.tsv'', File table)]),
          (''Orthogroup_Sequences'', Dir [])]"

definition main_dir_of :: "(string \<times> node) list \<Rightarrow> node" where
  \<comment> \<open>a root directory whose folder \<^verbatim>\<open>data\<close> holds the fastas and the OrthoFinder folder with
      the given runs\<close>
  "main_dir_of runs =
     Dir [(''data'', Dir [(''proteomes'', Dir []), (''OrthoFinder'', Dir runs)])]"

section \<open>The selection rule in the words of the specification\<close>

text \<open>
  The three definitions of this section follow the specification (section 4.2, steps 2b
  to 2e), not the code: the fraction of the counts of a row that are zero, the largest
  count of the row, and the condition under which the row qualifies.
\<close>

definition spec_missing_fraction :: "nat list \<Rightarrow> rat" where
  "spec_missing_fraction counts =
     of_nat (length (filter (\<lambda>c. c = 0) counts)) / of_nat (length counts)"

definition spec_max_copy_in_row :: "nat list \<Rightarrow> nat" where
  "spec_max_copy_in_row counts = fold max counts 0"

definition spec_qualifies :: "rat \<Rightarrow> nat \<Rightarrow> nat list \<Rightarrow> bool" where
  "spec_qualifies max_missing_fraction max_copies counts =
     (spec_missing_fraction counts \<le> max_missing_fraction \<and>
      spec_max_copy_in_row counts \<le> max_copies)"

section \<open>Properties of the Selector\<close>

subsection \<open>The missing-taxa test\<close>

lemma proportion_is_zero: "length entries \<noteq> 1 \<Longrightarrow> proportion entries = Inr 0"
  by (simp add: proportion_def truediv_def count_nonzero_def list_eq_int_def)

lemma missing_loop_keeps_all:
  "0 \<le> missing \<Longrightarrow> \<forall>entries\<in>set ll. length entries \<noteq> 1 \<Longrightarrow>
   missing_loop missing ll ml = Inr (ml @ ll)"
  by (induction ll arbitrary: ml) (simp_all add: proportion_is_zero)

subsection \<open>The copy-number test\<close>




subsection \<open>Writing\<close>

lemma write_list_elements:
  "write_elements list_add xs written = Inr content \<Longrightarrow> xs = [] \<and> content = written"
  by (cases xs) (simp_all add: list_add_def)

subsection \<open>The loop over the lines of the table\<close>



subsection \<open>The files of the Selector\<close>





lemma OFolder2List_selector:
  assumes "OFolder2List self w = Inr w'"
  shows "\<exists>content.
           open_read w (cwd w @ [''Orthogroups'', ''Orthogroups.GeneCount.tsv'']) = Inr content \<and>
           selector (missing_taxa self) (maximum_copies self) (readlines content) = Inr []"
proof -
  from assms obtain w1 content first_elements written where
    cd: "os_chdir w [Str (cwd w @ [''Orthogroups''])] = Inr w1"
    and rd: "open_read w1 (cwd w1 @ [''Orthogroups.GeneCount.tsv'']) = Inr content"
    and sl: "select (missing_taxa self) (maximum_copies self) (readlines content) = Inr first_elements"
    and wr: "write_elements list_add first_elements [] = Inr written"
    by (auto simp: OFolder2List_def Let_def os_getcwd_def split: sum.splits if_splits)
  from cd have w1: "w1 = w\<lparr>cwd := cwd w @ [''Orthogroups'']\<rparr>"
    by (auto simp: os_chdir_def split: sum.splits node.splits)
  from wr have "written = []" by (auto dest: write_list_elements)
  with sl wr have "selector (missing_taxa self) (maximum_copies self) (readlines content) = Inr []"
    by (simp add: selector_def)
  moreover from rd have
    "open_read w (cwd w @ [''Orthogroups'', ''Orthogroups.GeneCount.tsv'']) = Inr content"
    by (simp add: w1 open_read_def)
  ultimately show ?thesis by blast
qed

lemma OFolder2List_header_only:
  "OFolder2List
     \<lparr>of_dir = [''data''], out_dir = [''out''], missing_taxa = 1 / 2, maximum_copies = 2\<rparr>
     \<lparr>cwd = [''data'', ''OrthoFinder'', ''Results_Nov04''],
      files = main_dir_of [(''Results_Nov04'',
                run_folder_of (tsv_line [''Orthogroup'', ''Sp1'', ''Sp2'', ''Total'']))],
      printed = []\<rparr>
   = Inr \<lparr>cwd = [''data'', ''OrthoFinder'', ''Results_Nov04''],
          files = main_dir_of [(''Results_Nov04'',
                    Dir [(''Orthogroups'', Dir [(''Orthogroups.GeneCount.tsv'',
                            File (tsv_line [''Orthogroup'', ''Sp1'', ''Sp2'', ''Total'']))]),
                         (''Orthogroup_Sequences'', Dir []),
                         (''FilteredOrthologs.txt'', File [])])],
          printed = [Retrieved]\<rparr>"
  by code_simp

section \<open>The claims about the Selector\<close>

text \<open>
  Claim C1: a row is selected if and only if its fraction of zero counts is at most
  \<^verbatim>\<open>max_missing_fraction\<close> and its largest count is at most \<^verbatim>\<open>max_copies\<close>; in particular
  the row \<^verbatim>\<open>OG1 2 0 1 3\<close> is selected under the thresholds 0.5 and 2.
  The rule of the specification does select the counts 2, 0, 1; the code does not: the
  one row makes \<^verbatim>\<open>first_elements\<close> a list holding the row itself, and line 166 raises
  \<^verbatim>\<open>TypeError\<close> on \<^verbatim>\<open>element + "\n"\<close>.
\<close>

theorem scenario_A_raises:
  "spec_qualifies (1/2) 2 [2, 0, 1] \<and>
   selector (1/2) 2
     [tsv_line [''Orthogroup'', ''Sp1'', ''Sp2'', ''Sp3'', ''Total''],
      tsv_line [''OG1'', ''2'', ''0'', ''1'', ''3'']] = Inl TypeError"
proof
  show "spec_qualifies (1/2) 2 [2, 0, 1]"
    by (simp add: spec_qualifies_def spec_missing_fraction_def spec_max_copy_in_row_def)
  show "selector (1/2) 2
     [tsv_line [''Orthogroup'', ''Sp1'', ''Sp2'', ''Sp3'', ''Total''],
      tsv_line [''OG1'', ''2'', ''0'', ''1'', ''3'']] = Inl TypeError"
    by code_simp
qed

text \<open>
  Claim C2: the selection result is a sequence of group identifiers of the table, in table
  order, without repetition and no longer than the table. For a valid table of one row and
  valid thresholds, the element of \<^verbatim>\<open>first_elements\<close> is the list of the row's fields, not
  its identifier, and writing it raises \<^verbatim>\<open>TypeError\<close>.
\<close>

theorem first_elements_are_rows:
  "select (1/2) 2
     [tsv_line [''Orthogroup'', ''Sp1'', ''Sp2'', ''Total''],
      tsv_line [''OG0000000'', ''1'', ''1'', ''2'']] = Inr [[''OG0000000'', ''1'', ''1'']] \<and>
   write_elements list_add [[''OG0000000'', ''1'', ''1'']] [] = Inl TypeError"
  by code_simp



text \<open>
  Claim C4: for every data row (a row with at least one count, so that the list
  \<^verbatim>\<open>entries\<close> has a length other than one) the proportion of line 147 is 0, and with
  \<^verbatim>\<open>missing\<close> at least 0 the loop of lines 146 to 149 appends every row of \<^verbatim>\<open>line_list\<close> to
  \<^verbatim>\<open>missing_list\<close>: the test excludes no row.
\<close>

theorem missing_test_never_excludes:
  assumes "\<forall>entries\<in>set ll. length entries \<noteq> 1"
  shows "(\<forall>entries\<in>set ll. proportion entries = Inr 0) \<and>
         (0 \<le> missing \<longrightarrow> missing_loop missing ll ml = Inr (ml @ ll))"
  using assms by (simp add: proportion_is_zero missing_loop_keeps_all)

theorem missing_test_never_excludes_witness:
  "proportion [''OG2'', ''0'', ''0'', ''0''] = Inr 0 \<and>
   missing_loop 0 [[''OG2'', ''0'', ''0'', ''0'']] [] = Inr [[''OG2'', ''0'', ''0'', ''0'']]"
  using missing_test_never_excludes [of "[[''OG2'', ''0'', ''0'', ''0'']]" 0 "[]"]
  by simp

text \<open>
  Claim C5: with the missing fraction 1 and a copy bound that no count exceeds, every row
  is selected. The rule of the specification selects both rows of the table below; the
  code selects none: the second pass over \<^verbatim>\<open>missing_list\<close> raises \<^verbatim>\<open>TypeError\<close> at
  line 153.
\<close>

theorem relaxed_thresholds_raise:
  "spec_qualifies 1 1000 [1, 1] \<and> spec_qualifies 1 1000 [0, 3] \<and>
   selector 1 1000
     [tsv_line [''Orthogroup'', ''Sp1'', ''Sp2'', ''Total''],
      tsv_line [''OG0000000'', ''1'', ''1'', ''2''],
      tsv_line [''OG0000001'', ''0'', ''3'', ''3'']] = Inl TypeError"
proof (intro conjI)
  show "spec_qualifies 1 1000 [1, 1]" and "spec_qualifies 1 1000 [0, 3]"
    by (simp_all add: spec_qualifies_def spec_missing_fraction_def spec_max_copy_in_row_def)
  show "selector 1 1000
     [tsv_line [''Orthogroup'', ''Sp1'', ''Sp2'', ''Total''],
      tsv_line [''OG0000000'', ''1'', ''1'', ''2''],
      tsv_line [''OG0000001'', ''0'', ''3'', ''3'']] = Inl TypeError"
    by code_simp
qed

section \<open>The claims about the run, the Locator and the Materializer\<close>

lemma os_chdir_no_argument: "os_chdir w [] = Inl TypeError"
  by (simp add: os_chdir_def)

lemma MainDir2OFolder_fails: "MainDir2OFolder prompt self w \<noteq> Inr w'"
  by (auto simp: MainDir2OFolder_def os_chdir_no_argument split: sum.splits)

lemma main_fails: "main prompt self w \<noteq> Inr w'"
  by (auto simp: main_def MainDir2OFolder_fails List2Folder_def split: sum.splits)

text \<open>
  Claim C6: writing the selection to \<^verbatim>\<open>FilteredOrthologs.txt\<close> and reading the file back
  gives the same sequence of identifiers. For the table of one row below, whose row the
  rule of the specification selects, nothing is written: \<^verbatim>\<open>OFolder2List\<close> raises \<^verbatim>\<open>TypeError\<close>
  at line 166, where the element is a list. Nor is a list read back: with the identifier
  in the file, \<^verbatim>\<open>List2Folder\<close> raises \<^verbatim>\<open>TypeError\<close> at line 176, before line 184.
\<close>

theorem list_file_neither_written_nor_read:
  "spec_qualifies (1/2) 2 [1, 2] \<and>
   OFolder2List
     \<lparr>of_dir = [''data''], out_dir = [''out''], missing_taxa = 1 / 2, maximum_copies = 2\<rparr>
     \<lparr>cwd = [''data'', ''OrthoFinder'', ''Results_Nov04''],
      files = main_dir_of [(''Results_Nov04'',
                run_folder_of (tsv_line [''Orthogroup'', ''Sp1'', ''Sp2'', ''Total''] @
                               tsv_line [''OG0000003'', ''1'', ''2'', ''3'']))],
      printed = []\<rparr>
   = Inl TypeError \<and>
   List2Folder
     \<lparr>of_dir = [''data''], out_dir = [''out''], missing_taxa = 1 / 2, maximum_copies = 2\<rparr>
     \<lparr>cwd = [''data'', ''OrthoFinder'', ''Results_Nov04''],
      files = main_dir_of [(''Results_Nov04'',
                Dir [(''Orthogroups'', Dir [(''Orthogroups.GeneCount.tsv'',
                        File (tsv_line [''Orthogroup'', ''Sp1'', ''Sp2'', ''Total''] @
                              tsv_line [''OG0000003'', ''1'', ''2'', ''3'']))]),
                     (''Orthogroup_Sequences'', Dir [(''OG0000003.fa'', File ''>seq'')]),
                     (''FilteredOrthologs.txt'', File (''OG0000003'' @ [NL]))])],
      printed = []\<rparr>
   = Inl TypeError"
proof (intro conjI)
  show "spec_qualifies (1/2) 2 [1, 2]"
    by (simp add: spec_qualifies_def spec_missing_fraction_def spec_max_copy_in_row_def)
qed code_simp+

text \<open>
  Claim C7: on a table that has only its header the Selector selects nothing and the run
  completes, writing an empty list and reporting zero copies. The loops and the write of
  the Selector do complete with an empty text, and \<^verbatim>\<open>OFolder2List\<close> leaves an empty
  \<^verbatim>\<open>FilteredOrthologs.txt\<close> in the run folder; but \<^verbatim>\<open>List2Folder\<close> raises \<^verbatim>\<open>TypeError\<close> at
  line 176 before it reports a count, and \<^verbatim>\<open>main\<close> never completes.
\<close>

theorem header_only_run:
  "selector missing copies [header] = Inr [] \<and>
   OFolder2List
     \<lparr>of_dir = [''data''], out_dir = [''out''], missing_taxa = 1 / 2, maximum_copies = 2\<rparr>
     \<lparr>cwd = [''data'', ''OrthoFinder'', ''Results_Nov04''],
      files = main_dir_of [(''Results_Nov04'',
                run_folder_of (tsv_line [''Orthogroup'', ''Sp1'', ''Sp2'', ''Total'']))],
      printed = []\<rparr>
   = Inr \<lparr>cwd = [''data'', ''OrthoFinder'', ''Results_Nov04''],
          files = main_dir_of [(''Results_Nov04'',
                    Dir [(''Orthogroups'', Dir [(''Orthogroups.GeneCount.tsv'',
                            File (tsv_line [''Orthogroup'', ''Sp1'', ''Sp2'', ''Total'']))]),
                         (''Orthogroup_Sequences'', Dir []),
                         (''FilteredOrthologs.txt'', File [])])],
          printed = [Retrieved]\<rparr> \<and>
   List2Folder self w = Inl TypeError \<and>
   (\<forall>w'. main prompt self w \<noteq> Inr w')"
proof (intro conjI)
  show "selector missing copies [header] = Inr []"
    by (simp add: selector_def select_def)
  show "OFolder2List
     \<lparr>of_dir = [''data''], out_dir = [''out''], missing_taxa = 1 / 2, maximum_copies = 2\<rparr>
     \<lparr>cwd = [''data'', ''OrthoFinder'', ''Results_Nov04''],
      files = main_dir_of [(''Results_Nov04'',
                run_folder_of (tsv_line [''Orthogroup'', ''Sp1'', ''Sp2'', ''Total'']))],
      printed = []\<rparr>
   = Inr \<lparr>cwd = [''data'', ''OrthoFinder'', ''Results_Nov04''],
          files = main_dir_of [(''Results_Nov04'',
                    Dir [(''Orthogroups'', Dir [(''Orthogroups.GeneCount.tsv'',
                            File (tsv_line [''Orthogroup'', ''Sp1'', ''Sp2'', ''Total'']))]),
                         (''Orthogroup_Sequences'', Dir []),
                         (''FilteredOrthologs.txt'', File [])])],
          printed = [Retrieved]\<rparr>"
    by (rule OFolder2List_header_only)
  show "List2Folder self w = Inl TypeError"
    by (simp add: List2Folder_def)
  show "\<forall>w'. main prompt self w \<noteq> Inr w'"
    by (simp add: main_fails)
qed

text \<open>
  Claim C8: the thresholds are validated before the table is read; values outside their
  domain end the run with a message and values inside it pass. Building the parser
  evaluates \<^verbatim>\<open>range(0.1, 1.0)\<close>, which raises \<^verbatim>\<open>TypeError\<close>: whatever the command line and
  whatever \<^verbatim>\<open>argparse\<close> would do with it, the script ends there.
\<close>

theorem script_raises_TypeError:
  "script parse_args prompt argv w = Inl TypeError"
  by (simp add: script_def py_range_def)

text \<open>
  Claim C9: the Locator fails with a not-found error exactly when the OrthoFinder folder
  or its runs are missing, and resolves to the run when there is exactly one. Without the
  OrthoFinder folder the code raises \<^verbatim>\<open>FileNotFoundError\<close>; with it, \<^verbatim>\<open>os.chdir()\<close> of line 76
  raises \<^verbatim>\<open>TypeError\<close>, with one run as with none, and in no world does the function
  complete.
\<close>

theorem Locator_raises_TypeError:
  "MainDir2OFolder prompt
     \<lparr>of_dir = [''data''], out_dir = [''out''], missing_taxa = 1 / 2, maximum_copies = 2\<rparr>
     \<lparr>cwd = [],
      files = main_dir_of [(''Results_Nov04'',
                run_folder_of (tsv_line [''Orthogroup'', ''Sp1'', ''Sp2'', ''Total'']))],
      printed = []\<rparr>
   = Inl TypeError \<and>
   MainDir2OFolder prompt
     \<lparr>of_dir = [''data''], out_dir = [''out''], missing_taxa = 1 / 2, maximum_copies = 2\<rparr>
     \<lparr>cwd = [], files = main_dir_of [], printed = []\<rparr>
   = Inl TypeError \<and>
   MainDir2OFolder prompt
     \<lparr>of_dir = [''data''], out_dir = [''out''], missing_taxa = 1 / 2, maximum_copies = 2\<rparr>
     \<lparr>cwd = [], files = Dir [(''data'', Dir [(''proteomes'', Dir [])])], printed = []\<rparr>
   = Inl FileNotFoundError \<and>
   (\<forall>w'. MainDir2OFolder prompt self w \<noteq> Inr w')"
  by (simp add: MainDir2OFolder_fails)
     (simp add: MainDir2OFolder_def os_listdir_def listdir_at_def os_chdir_def main_dir_of_def)

text \<open>
  Claim C10: for each identifier of the list the Materializer looks for the file named
  by the identifier and \<^verbatim>\<open>.fa\<close>, warns and goes on when it is absent, and reports the
  number of files copied. Line 175 binds \<^verbatim>\<open>current_directory\<close> to the function
  \<^verbatim>\<open>os.getcwd\<close> without calling it, and \<^verbatim>\<open>os.path.join\<close> of line 176 raises \<^verbatim>\<open>TypeError\<close>: in
  every world the Materializer raises before it reads the list.
\<close>

theorem Materializer_raises_TypeError:
  "List2Folder self w = Inl TypeError"
  by (simp add: List2Folder_def)

end
